theory Spec2Isabelle
  imports Complex_Main "HOL-Library.Word"
begin

section \<open>The JNI bridge of SlamWrapper.cpp\<close>

text \<open>
  The five exported functions of SlamWrapper.cpp work on four file-level variables
  (\<open>g_pSLAM\<close>, \<open>g_isInitialized\<close>, \<open>g_trackingState\<close>, \<open>g_currentPose\<close>). Each function
  holds \<open>g_slamMutex\<close> from its first statement to its return, so the calls are
  serialised; a call is modelled as one function from the state before it to the state
  after it (and its return value).
\<close>

subsection \<open>The type \<open>float\<close>: IEEE 754 binary32\<close>

text \<open>
  \<open>g_currentPose\<close> is an array of \<open>float\<close>, and \<open>+= 0.001f\<close> is the binary32 addition
  with rounding to nearest, ties to even. A \<open>float\<close> is its three bit fields: the sign
  bit, the 8 exponent bits and the 23 fraction bits.
\<close>

datatype float = Float (fsign: bool) (fexp: "8 word") (ffrac: "23 word")

definition is_nan :: "float \<Rightarrow> bool" where
  "is_nan f = (fexp f = 255 \<and> ffrac f \<noteq> 0)"

definition is_inf :: "float \<Rightarrow> bool" where
  "is_inf f = (fexp f = 255 \<and> ffrac f = 0)"

text \<open>
  Every finite binary32 value is a whole multiple of \<open>2 ^ -149\<close>, the smallest
  subnormal. \<open>fmag\<close> is the magnitude of a finite \<open>float\<close> in that unit, \<open>fint\<close> the
  signed value in that unit and \<open>valof\<close> the real number denoted.
\<close>

definition fmag :: "float \<Rightarrow> nat" where
  "fmag f = (if fexp f = 0 then unat (ffrac f)
             else (2 ^ 23 + unat (ffrac f)) * 2 ^ (unat (fexp f) - 1))"

definition fint :: "float \<Rightarrow> int" where
  "fint f = (if fsign f then - int (fmag f) else int (fmag f))"

definition valof :: "float \<Rightarrow> real" where
  "valof f = real_of_int (fint f) / 2 ^ 149"

fun bitlen :: "nat \<Rightarrow> nat" where
  "bitlen n = (if n = 0 then 0 else Suc (bitlen (n div 2)))"

declare bitlen.simps [simp del]

text \<open>
  \<open>round_mag sg m\<close> is the \<open>float\<close> of sign \<open>sg\<close> nearest to the magnitude \<open>m\<close> (in units
  of \<open>2 ^ -149\<close>): a magnitude of at most 24 bits is representable as it is; a longer
  one loses its low \<open>sh\<close> bits, rounded to nearest with ties to the even significand,
  and overflows to infinity past the largest exponent.
\<close>

definition round_mag :: "bool \<Rightarrow> nat \<Rightarrow> float" where
  "round_mag sg m =
     (if bitlen m \<le> 24
      then Float sg (if bitlen m = 24 then 1 else 0) (of_nat (m mod 2 ^ 23))
      else
        let sh = bitlen m - 24;
            q = m div 2 ^ sh;
            r = m mod 2 ^ sh;
            half = 2 ^ (sh - 1);
            q' = (if half < r \<or> (r = half \<and> odd q) then q + 1 else q);
            e = (if q' = 2 ^ 24 then sh + 2 else sh + 1);
            fr = (if q' = 2 ^ 24 then 0 else q' - 2 ^ 23)
        in if 255 \<le> e then Float sg 255 0 else Float sg (of_nat e) (of_nat fr))"

definition quiet_nan :: float where
  "quiet_nan = Float False 255 (2 ^ 22)"

definition fadd :: "float \<Rightarrow> float \<Rightarrow> float" where
  "fadd a b =
     (if is_nan a \<or> is_nan b then quiet_nan
      else if is_inf a then (if is_inf b \<and> fsign a \<noteq> fsign b then quiet_nan else a)
      else if is_inf b then b
      else
        let n = fint a + fint b
        in if n = 0 then Float (fsign a \<and> fsign b) 0 0
           else round_mag (n < 0) (nat \<bar>n\<bar>))"

text \<open>The three literals of the source: \<open>0.0f\<close>, \<open>1.0f\<close> and \<open>0.001f\<close> (bits 0x3A83126F).\<close>

definition f_zero :: float where
  "f_zero = Float False 0 0"

definition f_one :: float where
  "f_one = Float False 127 0"

definition f_milli :: float where
  "f_milli = Float False 117 201327"

subsection \<open>OpenCV: images and the two decoders\<close>

text \<open>
  A \<open>cv::Mat\<close> is read here only through \<open>empty()\<close>, which holds when the matrix has no
  pixel data or no element. \<open>cv::imread\<close> (which reads the file system) and
  \<open>cv::imdecode\<close> are library calls outside this repository: they are the two fields of
  an environment \<open>env\<close>, the file system and decoder as they are at the time of a call.
  \<open>cv::imread\<close> returns a matrix, empty when the file could not be read. \<open>cv::imdecode\<close>
  returns a matrix or throws a \<open>cv::Exception\<close>: OpenCV asserts that the buffer it is
  given is not empty.
\<close>

type_synonym uchar = "8 word"

record Mat =
  mat_rows :: nat
  mat_cols :: nat
  mat_data :: "uchar list"

definition Mat_empty :: "Mat \<Rightarrow> bool" where
  "Mat_empty m = (mat_data m = [] \<or> mat_rows m * mat_cols m = 0)"

datatype cv_exception = CvException

record env =
  imread :: "string \<Rightarrow> Mat"
  imdecode :: "uchar list \<Rightarrow> cv_exception + Mat"

text \<open>
  \<open>std::string::find\<close>: the position of the first occurrence of \<open>needle\<close>, \<open>None\<close> for
  \<open>npos\<close>. \<open>find_from\<close> carries the position of the head of the remaining text.
\<close>

fun find_from :: "nat \<Rightarrow> string \<Rightarrow> string \<Rightarrow> nat option" where
  "find_from pos [] needle = (if needle = [] then Some pos else None)"
| "find_from pos (c # cs) needle =
     (if take (length needle) (c # cs) = needle then Some pos
      else find_from (Suc pos) cs needle)"

definition str_find :: "string \<Rightarrow> string \<Rightarrow> nat option" where
  "str_find hay needle = find_from 0 hay needle"

text \<open>
  \<open>base64ToMat\<close> never fills its byte vector (the base64 decoding is not written), so
  it hands \<open>cv::imdecode\<close> the empty buffer whatever its argument is, and has no handler
  for what \<open>cv::imdecode\<close> throws.
\<close>

definition base64ToMat :: "env \<Rightarrow> string \<Rightarrow> cv_exception + Mat" where
  "base64ToMat ev base64Data = imdecode ev []"

definition loadImage :: "env \<Rightarrow> string \<Rightarrow> Mat" where
  "loadImage ev imagePath = imread ev imagePath"

text \<open>
  The frame that \<open>processFrameNative\<close> builds from its string argument, or the exception
  that leaves \<open>base64ToMat\<close>.
\<close>

definition load_frame :: "env \<Rightarrow> string \<Rightarrow> cv_exception + Mat" where
  "load_frame ev imageStr =
     (if str_find imageStr ''data:image'' \<noteq> None then base64ToMat ev imageStr
      else Inr (loadImage ev imageStr))"

subsection \<open>The session state and the five native calls\<close>

text \<open>
  \<open>g_pSLAM\<close> is a \<open>void*\<close>, an address with \<open>0\<close> for \<open>nullptr\<close>. \<open>g_trackingState\<close> is an
  \<open>int\<close> that only ever receives the constants 0, 1 and 2, so no arithmetic can
  overflow. \<open>g_currentPose\<close> is the array \<open>float[7]\<close>, a list of length 7 in every state
  the program reaches (\<open>pose_length\<close> below). A \<open>jdouble\<close> timestamp is only handed to
  the logger; it is read as the real number it denotes.
\<close>

type_synonym jdouble = real

record state =
  g_pSLAM :: nat
  g_isInitialized :: bool
  g_trackingState :: int
  g_currentPose :: "float list"

definition initial_state :: state where
  "initial_state =
     \<lparr>g_pSLAM = 0, g_isInitialized = False, g_trackingState = 0,
      g_currentPose = [f_zero, f_zero, f_zero, f_zero, f_zero, f_zero, f_one]\<rparr>"

text \<open>
  The three ways \<open>processFrameNative\<close> ends without a pose. Its two early returns hand
  \<open>nullptr\<close> to Java and differ in the error they log: "SLAM system not initialized"
  and "Invalid frame data". An exception thrown while the frame is loaded meets no
  handler in \<open>processFrameNative\<close> either: it leaves the native function, the call does
  not return to Java and the process ends.
\<close>

datatype error = NotInitialized | InvalidFrame | Uncaught cv_exception

text \<open>
  \<open>initializeSlamNative\<close>: the construction of the ORB-SLAM3 system is commented out,
  so the \<open>try\<close> block only logs and assigns; nothing in it throws and the \<open>catch\<close>
  handler is never entered. The two paths are logged and released, never opened.
\<close>

definition initializeSlamNative :: "string \<Rightarrow> string \<Rightarrow> state \<Rightarrow> state" where
  "initializeSlamNative vocabPath settingsPath s =
     s\<lparr>g_isInitialized := True, g_trackingState := 1\<rparr>"

text \<open>
  \<open>processFrameNative\<close>: the first early return, the loading of the frame (no variable
  has been assigned when an exception leaves it), the second early return, then the
  three \<open>+= 0.001f\<close> on indices 0, 1, 2, the assignment of 2 (OK) to the tracking state,
  and the new array of 7 floats filled from \<open>g_currentPose\<close>. The timestamp only appears
  in a log line.
\<close>

definition processFrameNative ::
  "env \<Rightarrow> string \<Rightarrow> jdouble \<Rightarrow> state \<Rightarrow> (error + float list) \<times> state" where
  "processFrameNative ev imageData timestamp s =
     (if \<not> g_isInitialized s then (Inl NotInitialized, s)
      else
        case load_frame ev imageData of
          Inl e \<Rightarrow> (Inl (Uncaught e), s)
        | Inr frame \<Rightarrow>
            if Mat_empty frame then (Inl InvalidFrame, s)
            else
              let p0 = (g_currentPose s)[0 := fadd (g_currentPose s ! 0) f_milli];
                  p1 = p0[1 := fadd (p0 ! 1) f_milli];
                  p2 = p1[2 := fadd (p1 ! 2) f_milli];
                  s' = s\<lparr>g_currentPose := p2, g_trackingState := 2\<rparr>
              in (Inr (take 7 (g_currentPose s')), s'))"

text \<open>
  What Java receives: \<open>nullptr\<close> from either early return, the new \<open>jfloatArray\<close>, or
  nothing (\<open>None\<close>) when the call does not return.
\<close>

datatype returned = Nullptr | JFloatArray "float list"

fun jni_result :: "error + float list \<Rightarrow> returned option" where
  "jni_result (Inl NotInitialized) = Some Nullptr"
| "jni_result (Inl InvalidFrame) = Some Nullptr"
| "jni_result (Inl (Uncaught e)) = None"
| "jni_result (Inr pose) = Some (JFloatArray pose)"

text \<open>The loop \<open>for (int i = 0; i < 6; i++) g_currentPose[i] = 0.0f\<close>.\<close>

function reset_loop :: "nat \<Rightarrow> float list \<Rightarrow> float list" where
  "reset_loop i pose = (if i < 6 then reset_loop (i + 1) (pose[i := f_zero]) else pose)"
  by pat_completeness auto
termination
  by (relation "measure (\<lambda>(i, pose). 6 - i)") auto

declare reset_loop.simps [simp del]

text \<open>The body of \<open>if (g_pSLAM)\<close> in \<open>resetNative\<close> is a comment only.\<close>

definition resetNative :: "state \<Rightarrow> state" where
  "resetNative s =
     s\<lparr>g_currentPose := (reset_loop 0 (g_currentPose s))[6 := f_one],
       g_trackingState := 1\<rparr>"

definition shutdownNative :: "state \<Rightarrow> state" where
  "shutdownNative s =
     (let s1 = (if g_pSLAM s \<noteq> 0 then s\<lparr>g_pSLAM := 0\<rparr> else s)
      in s1\<lparr>g_isInitialized := False, g_trackingState := 0\<rparr>)"

definition getTrackingStateNative :: "state \<Rightarrow> int" where
  "getTrackingStateNative s = g_trackingState s"

subsection \<open>Sequences of calls\<close>

text \<open>
  A call of the host application, with its arguments; a \<open>ProcessFrame\<close> call also
  carries the environment it is made in, since the files may change between two calls.
  A call that an uncaught exception leaves (\<open>uncaught\<close>) ends the process: the calls
  listed after it are never made. \<open>run\<close> is the state of the four variables after a
  sequence of calls, or at the point where the process ended; \<open>returns_all\<close> tells
  whether every call of the sequence returned.
\<close>

datatype call =
    Initialize string string
  | ProcessFrame env string jdouble
  | Reset
  | Shutdown
  | GetTrackingState

fun step :: "state \<Rightarrow> call \<Rightarrow> state" where
  "step s (Initialize vocabPath settingsPath) = initializeSlamNative vocabPath settingsPath s"
| "step s (ProcessFrame ev imageData timestamp) = snd (processFrameNative ev imageData timestamp s)"
| "step s Reset = resetNative s"
| "step s Shutdown = shutdownNative s"
| "step s GetTrackingState = s"

fun is_Uncaught :: "error + float list \<Rightarrow> bool" where
  "is_Uncaught (Inl (Uncaught e)) = True"
| "is_Uncaught r = False"

fun uncaught :: "state \<Rightarrow> call \<Rightarrow> bool" where
  "uncaught s (ProcessFrame ev imageData timestamp) =
     is_Uncaught (fst (processFrameNative ev imageData timestamp s))"
| "uncaught s c = False"

fun run :: "call list \<Rightarrow> state \<Rightarrow> state" where
  "run [] s = s"
| "run (c # cs) s = (if uncaught s c then s else run cs (step s c))"

fun returns_all :: "call list \<Rightarrow> state \<Rightarrow> bool" where
  "returns_all [] s = True"
| "returns_all (c # cs) s = (\<not> uncaught s c \<and> returns_all cs (step s c))"

fun is_Initialize :: "call \<Rightarrow> bool" where
  "is_Initialize (Initialize vocabPath settingsPath) = True"
| "is_Initialize c = False"

subsection \<open>Notions used to state the properties\<close>

text \<open>The Euclidean norm of the quaternion part \<open>(qx, qy, qz, qw)\<close> of a pose array.\<close>

definition quat_norm :: "float list \<Rightarrow> real" where
  "quat_norm pose =
     sqrt ((valof (pose ! 3))\<^sup>2 + (valof (pose ! 4))\<^sup>2 + (valof (pose ! 5))\<^sup>2
           + (valof (pose ! 6))\<^sup>2)"

text \<open>
  Two invariants of the reachable states: the pose array keeps its seven elements and
  its quaternion part stays \<open>(0, 0, 0, 1)\<close>; the tracking state stays among 0, 1, 2.
\<close>

definition pose_inv :: "state \<Rightarrow> bool" where
  "pose_inv s =
     (length (g_currentPose s) = 7
      \<and> drop 3 (g_currentPose s) = [f_zero, f_zero, f_zero, f_one])"

definition tracking_inv :: "state \<Rightarrow> bool" where
  "tracking_inv s = (g_trackingState s \<in> {0, 1, 2})"

subsection \<open>A concrete session\<close>

text \<open>
  An environment with two readable images of different content, \<open>frame.png\<close> and
  \<open>other.png\<close>; every other path fails to load; the decoder throws on the empty
  buffer, as OpenCV's does, and decodes no image from any other. The session is
  initialised (\<open>ready\<close>) and then fed \<open>frame.png\<close> once and twice.
\<close>

definition one_pixel :: Mat where
  "one_pixel = \<lparr>mat_rows = 1, mat_cols = 1, mat_data = [0]\<rparr>"

definition two_pixels :: Mat where
  "two_pixels = \<lparr>mat_rows = 1, mat_cols = 2, mat_data = [255, 7]\<rparr>"

definition no_image :: Mat where
  "no_image = \<lparr>mat_rows = 0, mat_cols = 0, mat_data = []\<rparr>"

definition test_env :: env where
  "test_env =
     \<lparr>imread = (\<lambda>path. if path = ''frame.png'' then one_pixel
                      else if path = ''other.png'' then two_pixels else no_image),
      imdecode = (\<lambda>buf. if buf = [] then Inl CvException else Inr no_image)\<rparr>"

definition ready :: state where
  "ready = run [Initialize ''ORBvoc.txt'' ''settings.yaml''] initial_state"

definition one_frame :: state where
  "one_frame = run [ProcessFrame test_env ''frame.png'' 2] ready"

definition two_frames :: state where
  "two_frames = run [ProcessFrame test_env ''frame.png'' 3] one_frame"

text \<open>The \<open>float\<close> values 0x3B03126F and 0x3B449BA6, and the poses after 1, 2, 3 frames.\<close>

definition f_2milli :: float where
  "f_2milli = Float False 118 201327"

definition f_3milli :: float where
  "f_3milli = Float False 118 4496294"

definition pose1 :: "float list" where
  "pose1 = [f_milli, f_milli, f_milli, f_zero, f_zero, f_zero, f_one]"

definition pose2 :: "float list" where
  "pose2 = [f_2milli, f_2milli, f_2milli, f_zero, f_zero, f_zero, f_one]"

definition pose3 :: "float list" where
  "pose3 = [f_3milli, f_3milli, f_3milli, f_zero, f_zero, f_zero, f_one]"

section \<open>Evaluation of the arithmetic and of the concrete session\<close>

lemma bitlen_numeral:
  "bitlen (numeral (Num.Bit0 n)) = Suc (bitlen (numeral n))"
  "bitlen (numeral (Num.Bit1 n)) = Suc (bitlen (numeral n))"
  "bitlen 1 = 1"
  "bitlen (Suc 0) = 1"
  "bitlen 0 = 0"
  by (subst bitlen.simps, simp)+

lemmas float_eval =
  fadd_def is_nan_def is_inf_def fint_def fmag_def round_mag_def bitlen_numeral Let_def
  f_zero_def f_one_def f_milli_def

lemma valof_f_zero: "valof f_zero = 0"
  by (simp add: valof_def fint_def fmag_def f_zero_def)

lemma valof_f_one: "valof f_one = 1"
  by (simp add: valof_def fint_def fmag_def f_one_def)

lemma valof_f_milli: "valof f_milli = 8589935 / 2 ^ 33"
  by (simp add: valof_def fint_def fmag_def f_milli_def)

lemma valof_steps:
  "valof f_2milli = 8589935 / 2 ^ 32"
  "valof f_3milli = 12884902 / 2 ^ 32"
  by (simp_all add: valof_def fint_def fmag_def f_2milli_def f_3milli_def)

text \<open>
  The first three additions of \<open>0.001f\<close> from \<open>0.0f\<close>. The third sum, 25769805 units of
  \<open>2 ^ -33\<close>, needs 25 significand bits and is a tie, rounded to the even 12884902
  units of \<open>2 ^ -32\<close>.
\<close>

lemma fadd_steps:
  "fadd f_zero f_milli = f_milli"
  "fadd f_milli f_milli = f_2milli"
  "fadd f_2milli f_milli = f_3milli"
  by (simp_all add: float_eval f_2milli_def f_3milli_def)

text \<open>
  At \<open>32768.0f\<close> (0x47000000) one unit in the last place is \<open>2 ^ -8\<close>, more than twice
  \<open>0.001f\<close>: the addition returns its first argument.
\<close>

lemma valof_32768: "valof (Float False 142 0) = 32768"
  by (simp add: valof_def fint_def fmag_def)

lemma fadd_stalls: "fadd (Float False 142 0) f_milli = Float False 142 0"
  by (simp add: float_eval)

lemma load_frame_test_env:
  "load_frame test_env ''frame.png'' = Inr one_pixel"
  "load_frame test_env ''other.png'' = Inr two_pixels"
  "load_frame test_env ''missing.png'' = Inr no_image"
  "load_frame test_env ''data:image/png;base64,iVBORw0KGgo='' = Inl CvException"
  by (simp_all add: load_frame_def str_find_def test_env_def loadImage_def base64ToMat_def)

lemma Mat_empty_test:
  "\<not> Mat_empty one_pixel" "\<not> Mat_empty two_pixels" "Mat_empty no_image"
  by (simp_all add: Mat_empty_def one_pixel_def two_pixels_def no_image_def)

lemma ready_eq:
  "ready = \<lparr>g_pSLAM = 0, g_isInitialized = True, g_trackingState = 1,
            g_currentPose = [f_zero, f_zero, f_zero, f_zero, f_zero, f_zero, f_one]\<rparr>"
  by (simp add: ready_def initializeSlamNative_def initial_state_def)

lemma process_ready:
  "processFrameNative test_env ''frame.png'' t ready =
     (Inr pose1,
      \<lparr>g_pSLAM = 0, g_isInitialized = True, g_trackingState = 2, g_currentPose = pose1\<rparr>)"
  "processFrameNative test_env ''other.png'' t ready =
     (Inr pose1,
      \<lparr>g_pSLAM = 0, g_isInitialized = True, g_trackingState = 2, g_currentPose = pose1\<rparr>)"
  by (simp_all add: ready_eq processFrameNative_def load_frame_test_env Mat_empty_test Let_def
      fadd_steps pose1_def)

lemma one_frame_eq:
  "one_frame =
     \<lparr>g_pSLAM = 0, g_isInitialized = True, g_trackingState = 2, g_currentPose = pose1\<rparr>"
  by (simp add: one_frame_def process_ready)

lemma process_one_frame:
  "processFrameNative test_env ''frame.png'' t one_frame =
     (Inr pose2,
      \<lparr>g_pSLAM = 0, g_isInitialized = True, g_trackingState = 2, g_currentPose = pose2\<rparr>)"
  by (simp add: one_frame_eq processFrameNative_def load_frame_test_env Mat_empty_test Let_def
      fadd_steps pose1_def pose2_def)

lemma two_frames_eq:
  "two_frames =
     \<lparr>g_pSLAM = 0, g_isInitialized = True, g_trackingState = 2, g_currentPose = pose2\<rparr>"
  by (simp add: two_frames_def process_one_frame)

lemma step_frame:
  "step ready (ProcessFrame test_env ''frame.png'' t) = one_frame"
  "\<not> uncaught ready (ProcessFrame test_env ''frame.png'' t)"
  "step one_frame (ProcessFrame test_env ''frame.png'' t) = two_frames"
  "\<not> uncaught one_frame (ProcessFrame test_env ''frame.png'' t)"
  by (simp_all add: process_ready process_one_frame)
    (simp_all add: one_frame_eq two_frames_eq)

lemma process_two_frames:
  "processFrameNative test_env ''frame.png'' t two_frames =
     (Inr pose3,
      \<lparr>g_pSLAM = 0, g_isInitialized = True, g_trackingState = 2, g_currentPose = pose3\<rparr>)"
  by (simp add: two_frames_eq processFrameNative_def load_frame_test_env Mat_empty_test Let_def
      fadd_steps pose2_def pose3_def)

section \<open>The addition rounds to nearest\<close>

text \<open>
  \<open>round_mag\<close> and \<open>fadd\<close> against their specification: a sum of two finite values
  that fits 24 significand bits is returned exactly, and a longer one (short of
  overflow) is returned with an error of at most half a unit in the last place,
  \<open>2 ^ (bitlen m - 24)\<close> being that unit for a magnitude \<open>m\<close>.
\<close>

lemma bitlen_bounds:
  "0 < n \<Longrightarrow> 2 ^ (bitlen n - 1) \<le> n \<and> n < 2 ^ bitlen n"
proof (induction n rule: bitlen.induct)
  case (1 n)
  show ?case
  proof (cases "n div 2 = 0")
    case True
    with \<open>0 < n\<close> have "n = 1" by linarith
    then show ?thesis
      by (simp add: bitlen_numeral)
  next
    case False
    then have pos: "0 < n div 2" by simp
    with 1 have ih: "2 ^ (bitlen (n div 2) - 1) \<le> n div 2" "n div 2 < 2 ^ bitlen (n div 2)"
      by simp_all
    have bl: "bitlen n = Suc (bitlen (n div 2))"
      using \<open>0 < n\<close> by (subst bitlen.simps) simp
    have "0 < bitlen (n div 2)"
      using pos by (subst bitlen.simps) simp
    then obtain k where k: "bitlen (n div 2) = Suc k"
      by (cases "bitlen (n div 2)") simp_all
    from ih k have "2 * 2 ^ k \<le> n" "n < 2 * 2 ^ Suc k"
      by simp_all
    then show ?thesis
      by (simp add: bl k)
  qed
qed

lemma bitlen_less: "bitlen n \<le> k \<Longrightarrow> n < 2 ^ k"
proof (cases "n = 0")
  case False
  assume "bitlen n \<le> k"
  from False have "n < 2 ^ bitlen n"
    using bitlen_bounds [of n] by simp
  also have "(2::nat) ^ bitlen n \<le> 2 ^ k"
    using \<open>bitlen n \<le> k\<close> by (simp add: power_increasing)
  finally show ?thesis .
qed simp

lemma bitlen_ge: "0 < n \<Longrightarrow> bitlen n = Suc k \<Longrightarrow> 2 ^ k \<le> n"
  using bitlen_bounds [of n] by simp

lemma bitlen_le_iff: "bitlen n \<le> k \<longleftrightarrow> n < 2 ^ k"
proof
  assume "n < 2 ^ k"
  show "bitlen n \<le> k"
  proof (rule ccontr)
    assume "\<not> bitlen n \<le> k"
    then have "k \<le> bitlen n - 1" and "0 < bitlen n" by simp_all
    then have "0 < n" by (subst (asm) (2) bitlen.simps) (simp split: if_splits)
    then have "2 ^ (bitlen n - 1) \<le> n"
      using bitlen_bounds by simp
    moreover have "(2::nat) ^ k \<le> 2 ^ (bitlen n - 1)"
      using \<open>k \<le> bitlen n - 1\<close> by (simp add: power_increasing)
    ultimately show False
      using \<open>n < 2 ^ k\<close> by linarith
  qed
qed (rule bitlen_less)

lemma unat_frac: "k < 2 ^ 23 \<Longrightarrow> unat (of_nat k :: 23 word) = k"
  by (simp add: unat_of_nat)

lemma unat_expo: "k < 256 \<Longrightarrow> unat (of_nat k :: 8 word) = k"
  by (simp add: unat_of_nat)

lemma round_mag_exact:
  assumes "m < 2 ^ 24"
  shows "fmag (round_mag sg m) = m \<and> fsign (round_mag sg m) = sg"
proof -
  from assms have le: "bitlen m \<le> 24"
    by (simp add: bitlen_le_iff)
  have fr: "unat (of_nat (m mod 2 ^ 23) :: 23 word) = m mod 2 ^ 23"
    by (rule unat_frac) simp
  show ?thesis
  proof (cases "bitlen m = 24")
    case True
    then have "\<not> bitlen m \<le> 23" by simp
    then have "2 ^ 23 \<le> m"
      by (simp add: bitlen_le_iff)
    with assms have "m mod 2 ^ 23 = m - 2 ^ 23"
      by (simp add: mod_if)
    with \<open>2 ^ 23 \<le> m\<close> fr have "2 ^ 23 + unat (of_nat (m mod 2 ^ 23) :: 23 word) = m"
      by simp
    then show ?thesis
      by (simp add: round_mag_def True fmag_def del: of_nat_diff)
  next
    case False
    with le have "bitlen m \<le> 23" by simp
    then have "m < 2 ^ 23"
      by (simp add: bitlen_le_iff)
    with fr have "unat (of_nat (m mod 2 ^ 23) :: 23 word) = m"
      by simp
    with le False show ?thesis
      by (simp add: round_mag_def fmag_def del: of_nat_diff)
  qed
qed


lemma round_mag_long:
  assumes long: "24 < bitlen m" and small: "bitlen m < 277"
  defines "sh \<equiv> bitlen m - 24"
  defines "q \<equiv> m div 2 ^ sh"
  defines "r \<equiv> m mod 2 ^ sh"
  defines "q' \<equiv> (if 2 ^ (sh - 1) < r \<or> (r = 2 ^ (sh - 1) \<and> odd q) then q + 1 else q)"
  shows "fmag (round_mag sg m) = q' * 2 ^ sh" and "fsign (round_mag sg m) = sg"
    and "2 ^ 23 \<le> q'" and "q' \<le> 2 ^ 24"
proof -
  from long have "0 < m"
    by (subst (asm) bitlen.simps) (simp split: if_splits)
  from long have L: "bitlen m = Suc (23 + sh)" and sh: "0 < sh" "sh < 253"
    using small by (simp_all add: sh_def)
  have "2 ^ (23 + sh) \<le> m"
    using \<open>0 < m\<close> L by (rule bitlen_ge)
  then have "2 ^ 23 * 2 ^ sh \<le> m"
    by (simp add: power_add)
  then have qlo: "2 ^ 23 \<le> q"
    unfolding q_def by (simp add: less_eq_div_iff_mult_less_eq)
  have "m < 2 ^ bitlen m"
    using \<open>0 < m\<close> bitlen_bounds by simp
  then have "m < 2 ^ 24 * 2 ^ sh"
    by (simp add: L power_add)
  then have qhi: "q < 2 ^ 24"
    unfolding q_def by (simp add: less_mult_imp_div_less)
  from qlo qhi show q'lo: "2 ^ 23 \<le> q'" and q'hi: "q' \<le> 2 ^ 24"
    by (simp_all add: q'_def)
  have rm: "round_mag sg m =
      (if q' = 2 ^ 24 then Float sg (of_nat (sh + 2)) 0
       else Float sg (of_nat (sh + 1)) (of_nat (q' - 2 ^ 23)))"
    unfolding round_mag_def Let_def
    unfolding sh_def [symmetric]
    unfolding q_def [symmetric] r_def [symmetric]
    unfolding q'_def [symmetric]
    using long sh by (simp del: of_nat_diff of_nat_add of_nat_Suc)
  show "fsign (round_mag sg m) = sg"
    by (simp add: rm)
  show "fmag (round_mag sg m) = q' * 2 ^ sh"
  proof (cases "q' = 2 ^ 24")
    case True
    have "unat (of_nat (sh + 2) :: 8 word) = sh + 2"
      using sh by (intro unat_expo) simp
    then have "fmag (Float sg (of_nat (sh + 2)) 0) = 2 ^ 23 * 2 ^ (sh + 1)"
      by (auto simp: fmag_def simp del: of_nat_add of_nat_Suc)
    moreover have "round_mag sg m = Float sg (of_nat (sh + 2)) 0"
      using rm True by (simp del: of_nat_diff of_nat_add of_nat_Suc)
    ultimately have "fmag (round_mag sg m) = 2 ^ 23 * 2 ^ (sh + 1)"
      by (simp only:)
    then show ?thesis
      by (simp add: True)
  next
    case False
    with q'hi q'lo have "q' - 2 ^ 23 < 2 ^ 23"
      by simp
    then have fr: "unat (of_nat (q' - 2 ^ 23) :: 23 word) = q' - 2 ^ 23"
      by (rule unat_frac)
    have ex: "unat (of_nat (sh + 1) :: 8 word) = sh + 1"
      using sh by (intro unat_expo) simp
    then have "(of_nat (sh + 1) :: 8 word) \<noteq> 0"
      by (metis add_is_0 unat_0 zero_neq_one)
    with fr ex q'lo
    have "fmag (Float sg (of_nat (sh + 1)) (of_nat (q' - 2 ^ 23))) = q' * 2 ^ sh"
      by (simp add: fmag_def del: of_nat_diff of_nat_add of_nat_Suc)
    moreover have "round_mag sg m = Float sg (of_nat (sh + 1)) (of_nat (q' - 2 ^ 23))"
      using rm False by (simp del: of_nat_diff of_nat_add of_nat_Suc)
    ultimately show ?thesis
      by (simp only:)
  qed
qed

lemma round_mag_nearest:
  assumes "24 < bitlen m" and "bitlen m < 277"
  shows "2 * \<bar>int (fmag (round_mag sg m)) - int m\<bar> \<le> 2 ^ (bitlen m - 24)"
proof -
  define sh where "sh = bitlen m - 24"
  define q where "q = m div 2 ^ sh"
  define r where "r = m mod 2 ^ sh"
  define h :: nat where "h = 2 ^ (sh - 1)"
  from assms have "0 < sh"
    by (simp add: sh_def)
  then have two_h: "2 ^ sh = 2 * h"
    by (cases sh) (simp_all add: h_def)
  have "int (2 ^ sh) = int (2 * h)"
    by (simp only: two_h)
  then have two_h_int: "(2::int) ^ sh = 2 * int h"
    by simp
  have m: "m = q * (2 * h) + r"
    using div_mult_mod_eq [of m "2 ^ sh"] by (simp add: q_def r_def two_h)
  have rlt: "r < 2 * h"
    by (simp add: r_def two_h [symmetric])
  have "fmag (round_mag sg m) =
      (if 2 ^ (sh - 1) < r \<or> (r = 2 ^ (sh - 1) \<and> odd q) then q + 1 else q) * 2 ^ sh"
    using round_mag_long(1) [OF assms, of sg] unfolding sh_def q_def r_def .
  then have v: "fmag (round_mag sg m) =
      (if h < r \<or> (r = h \<and> odd q) then q + 1 else q) * (2 * h)"
    unfolding h_def [symmetric] two_h .
  show ?thesis
  proof (cases "h < r \<or> (r = h \<and> odd q)")
    case True
    then have "h \<le> r" by auto
    with rlt m True show ?thesis
      unfolding sh_def [symmetric] two_h_int v by (simp add: algebra_simps)
  next
    case False
    then have "r \<le> h" by auto
    with m False show ?thesis
      unfolding sh_def [symmetric] two_h_int v by (simp add: algebra_simps)
  qed
qed


lemma fsign_round_mag: "fsign (round_mag sg m) = sg"
  by (simp add: round_mag_def Let_def)

lemma fint_round_mag:
  "fint (round_mag (n < 0) m) - n =
     (if n < 0 then - n - int (fmag (round_mag True m)) else int (fmag (round_mag False m)) - n)"
  by (simp add: fint_def fsign_round_mag)

lemma fadd_finite:
  assumes "fexp a \<noteq> 255" and "fexp b \<noteq> 255" and "fint a + fint b \<noteq> 0"
  shows "fadd a b = round_mag (fint a + fint b < 0) (nat \<bar>fint a + fint b\<bar>)"
  using assms by (simp add: fadd_def is_nan_def is_inf_def Let_def)

lemma fadd_exact:
  assumes "fexp a \<noteq> 255" and "fexp b \<noteq> 255" and "\<bar>fint a + fint b\<bar> < 2 ^ 24"
  shows "fint (fadd a b) = fint a + fint b"
proof (cases "fint a + fint b = 0")
  case True
  with assms(1,2) show ?thesis
    by (simp add: fadd_def is_nan_def is_inf_def Let_def fint_def fmag_def)
next
  case False
  define n where "n = fint a + fint b"
  define m where "m = nat \<bar>n\<bar>"
  have m: "int m = \<bar>n\<bar>"
    by (simp add: m_def)
  from assms(3) have "m < 2 ^ 24"
    by (simp add: m_def n_def)
  then have "fmag (round_mag sg m) = m" for sg
    using round_mag_exact by blast
  with m have "fint (round_mag (n < 0) m) - n = 0"
    by (simp add: fint_round_mag)
  then show ?thesis
    using fadd_finite [OF assms(1,2) False] by (simp add: n_def m_def)
qed

lemma fadd_nearest:
  assumes "fexp a \<noteq> 255" and "fexp b \<noteq> 255"
    and "24 < bitlen (nat \<bar>fint a + fint b\<bar>)" and "bitlen (nat \<bar>fint a + fint b\<bar>) < 277"
  shows "2 * \<bar>fint (fadd a b) - (fint a + fint b)\<bar>
    \<le> 2 ^ (bitlen (nat \<bar>fint a + fint b\<bar>) - 24)"
proof -
  define n where "n = fint a + fint b"
  define m where "m = nat \<bar>n\<bar>"
  have m: "int m = \<bar>n\<bar>"
    by (simp add: m_def)
  from assms(3) have "n \<noteq> 0"
    by (auto simp: n_def bitlen_numeral)
  then have f: "fadd a b = round_mag (n < 0) m"
    unfolding n_def m_def by (rule fadd_finite [OF assms(1,2)])
  have "2 * \<bar>int (fmag (round_mag sg m)) - int m\<bar> \<le> 2 ^ (bitlen m - 24)" for sg
    using assms(3,4) unfolding n_def [symmetric] m_def [symmetric] by (rule round_mag_nearest)
  then have near: "2 * \<bar>int (fmag (round_mag sg m)) - \<bar>n\<bar>\<bar> \<le> 2 ^ (bitlen m - 24)" for sg
    by (simp only: m)
  have "2 * \<bar>fint (round_mag (n < 0) m) - n\<bar> \<le> 2 ^ (bitlen m - 24)"
  proof (cases "n < 0")
    case True
    then have "\<bar>fint (round_mag (n < 0) m) - n\<bar> = \<bar>int (fmag (round_mag True m)) - \<bar>n\<bar>\<bar>"
      unfolding fint_round_mag by simp
    then show ?thesis
      using near [of True] by (simp only:)
  next
    case False
    then have "\<bar>fint (round_mag (n < 0) m) - n\<bar> = \<bar>int (fmag (round_mag False m)) - \<bar>n\<bar>\<bar>"
      unfolding fint_round_mag by simp
    then show ?thesis
      using near [of False] by (simp only:)
  qed
  then show ?thesis
    by (simp add: f n_def m_def)
qed

section \<open>Properties of the single calls\<close>

lemma length_reset_loop: "length (reset_loop i pose) = length pose"
proof (induction i pose rule: reset_loop.induct)
  case (1 i pose)
  then show ?case
    by (subst reset_loop.simps) simp
qed

lemma list7:
  assumes "length (xs :: 'a list) = 7"
  obtains a b c d e f g where "xs = [a, b, c, d, e, f, g]"
proof -
  from assms obtain a b c d e f g where "xs = [a, b, c, d, e, f, g]"
    by (auto simp: eval_nat_numeral length_Suc_conv)
  then show thesis ..
qed

lemma reset_loop_seven:
  "reset_loop 0 [a, b, c, d, e, f, g] = [f_zero, f_zero, f_zero, f_zero, f_zero, f_zero, g]"
  by (simp add: reset_loop.simps)

lemma resetNative_pose:
  assumes "length (g_currentPose s) = 7"
  shows "g_currentPose (resetNative s)
    = [f_zero, f_zero, f_zero, f_zero, f_zero, f_zero, f_one]"
proof -
  from assms obtain a b c d e f g where "g_currentPose s = [a, b, c, d, e, f, g]"
    by (rule list7)
  then show ?thesis
    by (simp add: resetNative_def reset_loop_seven)
qed

lemma processFrame_seven:
  assumes "g_currentPose s = [x, y, z, qx, qy, qz, qw]"
  shows "processFrameNative ev imageData timestamp s =
     (if \<not> g_isInitialized s then (Inl NotInitialized, s)
      else
        case load_frame ev imageData of
          Inl e \<Rightarrow> (Inl (Uncaught e), s)
        | Inr frame \<Rightarrow>
            if Mat_empty frame then (Inl InvalidFrame, s)
            else (Inr [fadd x f_milli, fadd y f_milli, fadd z f_milli, qx, qy, qz, qw],
                  s\<lparr>g_currentPose :=
                       [fadd x f_milli, fadd y f_milli, fadd z f_milli, qx, qy, qz, qw],
                    g_trackingState := 2\<rparr>))"
  by (simp add: processFrameNative_def Let_def assms split: sum.split)

lemma processFrame_timestamp:
  "processFrameNative ev imageData t2 s = processFrameNative ev imageData t1 s"
  by (simp add: processFrameNative_def)

lemma processFrame_error_iff:
  "fst (processFrameNative ev imageData t s) = Inl NotInitialized \<longleftrightarrow> \<not> g_isInitialized s"
  "fst (processFrameNative ev imageData t s) = Inl InvalidFrame
     \<longleftrightarrow> g_isInitialized s \<and> (\<exists>frame. load_frame ev imageData = Inr frame \<and> Mat_empty frame)"
  by (auto simp: processFrameNative_def Let_def split: sum.splits)

lemma processFrame_error_state:
  "fst (processFrameNative ev imageData t s) = Inl e
     \<Longrightarrow> snd (processFrameNative ev imageData t s) = s"
  by (simp add: processFrameNative_def Let_def split: if_splits sum.splits)

lemma processFrame_uncaught:
  "is_Uncaught (fst (processFrameNative ev imageData t s))
     \<longleftrightarrow> g_isInitialized s \<and> (\<exists>e. load_frame ev imageData = Inl e)"
  by (auto simp: processFrameNative_def Let_def split: sum.splits)

text \<open>
  With a decoder that rejects the empty buffer, a string containing \<open>data:image\<close>
  ends an initialized session: the call does not return.
\<close>

lemma process_data_uri:
  "processFrameNative test_env ''data:image/png;base64,iVBORw0KGgo='' t one_frame
     = (Inl (Uncaught CvException), one_frame)"
  "jni_result (fst (processFrameNative test_env ''data:image/png;base64,iVBORw0KGgo='' t one_frame))
     = None"
  by (simp_all add: processFrameNative_def one_frame_eq load_frame_test_env)


section \<open>Invariants of the reachable states\<close>

lemma pose_inv_initial: "pose_inv initial_state"
  by (simp add: pose_inv_def initial_state_def)

lemma pose_invD:
  assumes "pose_inv s"
  obtains x y z where "g_currentPose s = [x, y, z, f_zero, f_zero, f_zero, f_one]"
proof -
  from assms have len: "length (g_currentPose s) = 7"
    and q: "drop 3 (g_currentPose s) = [f_zero, f_zero, f_zero, f_one]"
    by (simp_all add: pose_inv_def)
  from len obtain a b c d e f g where p: "g_currentPose s = [a, b, c, d, e, f, g]"
    by (rule list7)
  with q have "g_currentPose s = [a, b, c, f_zero, f_zero, f_zero, f_one]"
    by simp
  then show thesis ..
qed

lemma step_pose_inv:
  assumes "pose_inv s"
  shows "pose_inv (step s c)"
proof (cases c)
  case (Initialize v p)
  with assms show ?thesis
    by (simp add: initializeSlamNative_def pose_inv_def)
next
  case (ProcessFrame ev img ts)
  from assms obtain x y z
    where p: "g_currentPose s = [x, y, z, f_zero, f_zero, f_zero, f_one]"
    by (rule pose_invD)
  show ?thesis
    using assms
    by (simp add: ProcessFrame processFrame_seven [OF p] pose_inv_def split: sum.split)
next
  case Reset
  from assms have "length (g_currentPose s) = 7"
    by (simp add: pose_inv_def)
  then show ?thesis
    by (simp add: Reset pose_inv_def resetNative_pose)
next
  case Shutdown
  with assms show ?thesis
    by (simp add: shutdownNative_def pose_inv_def Let_def)
next
  case GetTrackingState
  with assms show ?thesis by simp
qed

lemma run_pose_inv: "pose_inv s \<Longrightarrow> pose_inv (run calls s)"
  by (induction calls arbitrary: s) (simp_all add: step_pose_inv)

lemma pose_length: "length (g_currentPose (run calls initial_state)) = 7"
  using run_pose_inv [OF pose_inv_initial, of calls] by (simp add: pose_inv_def)

lemma step_tracking:
  assumes "tracking_inv s"
  shows "tracking_inv (step s c)"
proof (cases c)
  case (ProcessFrame ev img ts)
  with assms show ?thesis
    by (simp add: tracking_inv_def processFrameNative_def Let_def split: sum.split)
qed (use assms in \<open>simp_all add: tracking_inv_def initializeSlamNative_def resetNative_def
      shutdownNative_def Let_def\<close>)

lemma run_tracking: "tracking_inv s \<Longrightarrow> tracking_inv (run calls s)"
  by (induction calls arbitrary: s) (simp_all add: step_tracking)

lemma step_uninitialized:
  assumes "\<not> g_isInitialized s" and "\<not> is_Initialize c"
  shows "\<not> g_isInitialized (step s c)"
  using assms
  by (cases c) (simp_all add: processFrameNative_def resetNative_def shutdownNative_def Let_def)

lemma uncaught_uninitialized: "\<not> g_isInitialized s \<Longrightarrow> \<not> uncaught s c"
  by (cases c) (simp_all add: processFrameNative_def)

lemma run_uninitialized:
  "\<not> g_isInitialized s \<Longrightarrow> list_all (\<lambda>c. \<not> is_Initialize c) calls
     \<Longrightarrow> \<not> g_isInitialized (run calls s) \<and> returns_all calls s"
  by (induction calls arbitrary: s)
    (simp_all add: step_uninitialized uncaught_uninitialized)

lemma quat_norm_identity: "quat_norm [x, y, z, f_zero, f_zero, f_zero, f_one] = 1"
  by (simp add: quat_norm_def valof_f_zero valof_f_one)

section \<open>The claims\<close>

subsection \<open>C1: the pose returned by a successful call\<close>

text \<open>
  C1 as stated, "each of x, y, z increased by exactly 0.001", fails on the third
  successful frame of a session: the stored x is \<open>0.002f\<close>, the returned x is \<open>0.003f\<close>,
  and the difference of the two values, \<open>4294967 / 2 ^ 32\<close>, is neither 0.001 nor the
  value of the constant \<open>0.001f\<close>.
\<close>

theorem third_increment_not_exact:
  "fst (processFrameNative test_env ''frame.png'' 4 two_frames) = Inr pose3
   \<and> valof (pose3 ! 0) \<noteq> valof (g_currentPose two_frames ! 0) + 1 / 1000
   \<and> valof (pose3 ! 0) \<noteq> valof (g_currentPose two_frames ! 0) + valof f_milli"
proof -
  have "fst (processFrameNative test_env ''frame.png'' 4 two_frames) = Inr pose3"
    by (simp add: process_two_frames)
  moreover have "g_currentPose two_frames ! 0 = f_2milli"
    by (simp add: two_frames_eq pose2_def)
  moreover have "pose3 ! 0 = f_3milli"
    by (simp add: pose3_def)
  ultimately show ?thesis
    by (simp add: valof_steps valof_f_milli)
qed

text \<open>
  C1, amended: for every call to \<open>processFrameNative\<close> that returns a pose array, the
  returned pose is the previously stored pose with each of x, y, z replaced by the
  binary32 sum (rounded to nearest, ties to even) of its previous value and the constant
  \<open>0.001f\<close>, and with the four quaternion components unchanged; the returned pose does
  not depend on the image, on the environment it is loaded from or on the timestamp.
\<close>

theorem processFrame_pose_increment:
  assumes "g_currentPose s = [x, y, z, qx, qy, qz, qw]"
    and "processFrameNative ev imageData timestamp s = (Inr pose, s')"
    and "processFrameNative ev' imageData' timestamp' s = (Inr pose', s'')"
  shows "pose = [fadd x f_milli, fadd y f_milli, fadd z f_milli, qx, qy, qz, qw]
    \<and> pose' = pose"
  using assms(2,3)
  by (simp add: processFrame_seven [OF assms(1)] split: if_splits sum.splits)

theorem processFrame_pose_increment_witness:
  "g_currentPose ready = [f_zero, f_zero, f_zero, f_zero, f_zero, f_zero, f_one]
   \<and> processFrameNative test_env ''frame.png'' 2 ready = (Inr pose1, one_frame)
   \<and> processFrameNative test_env ''other.png'' 9 ready = (Inr pose1, one_frame)
   \<and> pose1 = [fadd f_zero f_milli, fadd f_zero f_milli, fadd f_zero f_milli,
              f_zero, f_zero, f_zero, f_one]"
proof -
  have h1: "g_currentPose ready = [f_zero, f_zero, f_zero, f_zero, f_zero, f_zero, f_one]"
    by (simp add: ready_eq)
  have h2: "processFrameNative test_env ''frame.png'' 2 ready = (Inr pose1, one_frame)"
    by (simp add: process_ready one_frame_eq)
  have h3: "processFrameNative test_env ''other.png'' 9 ready = (Inr pose1, one_frame)"
    by (simp add: process_ready one_frame_eq)
  from processFrame_pose_increment [OF h1 h2 h3] h1 h2 h3 show ?thesis
    by simp
qed

subsection \<open>C2: timestamps out of order\<close>

text \<open>
  C2 as stated fails: after a frame with timestamp 2, a frame with timestamp 1 is not
  rejected; it returns the next pose and changes the stored state.
\<close>

theorem decreasing_timestamp_accepted:
  "1 < (2 :: real)
   \<and> processFrameNative test_env ''frame.png'' 2 ready = (Inr pose1, one_frame)
   \<and> processFrameNative test_env ''frame.png'' 1 one_frame = (Inr pose2, two_frames)
   \<and> two_frames \<noteq> one_frame"
proof -
  have "processFrameNative test_env ''frame.png'' 2 ready = (Inr pose1, one_frame)"
    by (simp add: process_ready one_frame_eq)
  moreover have "processFrameNative test_env ''frame.png'' 1 one_frame = (Inr pose2, two_frames)"
    by (simp add: process_one_frame two_frames_eq)
  moreover have "two_frames \<noteq> one_frame"
    by (simp add: one_frame_eq two_frames_eq pose1_def pose2_def f_milli_def f_2milli_def)
  ultimately show ?thesis
    by simp
qed

text \<open>
  C2, amended: for every session and every pair of \<open>processFrameNative\<close> calls in which
  the later call's timestamp is strictly less than an earlier call's timestamp, the
  later call does exactly what it would do with the earlier timestamp: timestamps are
  never compared. The later call is rejected only when the session is not initialized
  or when its frame is empty, and a rejected call leaves the session state unchanged.
\<close>

theorem timestamp_order_ignored:
  assumes "t2 < t1"
    and "s = run between (snd (processFrameNative ev1 imageData1 t1 s0))"
  shows "processFrameNative ev imageData t2 s = processFrameNative ev imageData t1 s
    \<and> (fst (processFrameNative ev imageData t2 s) = Inl NotInitialized
         \<longleftrightarrow> \<not> g_isInitialized s)
    \<and> (fst (processFrameNative ev imageData t2 s) = Inl InvalidFrame
         \<longleftrightarrow> g_isInitialized s
             \<and> (\<exists>frame. load_frame ev imageData = Inr frame \<and> Mat_empty frame))
    \<and> (fst (processFrameNative ev imageData t2 s) \<in> {Inl NotInitialized, Inl InvalidFrame}
         \<longrightarrow> snd (processFrameNative ev imageData t2 s) = s)"
  using processFrame_timestamp [of ev imageData t2 s t1]
    processFrame_error_iff [of ev imageData t2 s]
    processFrame_error_state [of ev imageData t2 s]
  by auto

theorem timestamp_order_ignored_witness:
  "(1 :: real) < 2
   \<and> one_frame = run [] (snd (processFrameNative test_env ''frame.png'' 2 ready))
   \<and> processFrameNative test_env ''frame.png'' 1 one_frame
       = processFrameNative test_env ''frame.png'' 2 one_frame
   \<and> fst (processFrameNative test_env ''frame.png'' 1 one_frame) \<noteq> Inl NotInitialized
   \<and> fst (processFrameNative test_env ''frame.png'' 1 one_frame) \<noteq> Inl InvalidFrame"
proof -
  have h1: "(1 :: real) < 2"
    by simp
  have h2: "one_frame = run [] (snd (processFrameNative test_env ''frame.png'' 2 ready))"
    by (simp add: process_ready one_frame_eq)
  have i: "g_isInitialized one_frame"
    by (simp add: one_frame_eq)
  have m: "\<not> (\<exists>frame. load_frame test_env ''frame.png'' = Inr frame \<and> Mat_empty frame)"
    by (simp add: load_frame_test_env Mat_empty_test)
  from timestamp_order_ignored [OF h1 h2, of test_env "''frame.png''"] h1 h2 i m
  show ?thesis
    by auto
qed

subsection \<open>C3: after initialization and after shutdown\<close>

text \<open>
  C3 as stated, "after \<open>shutdownNative\<close> every subsequent \<open>processFrameNative\<close> call
  fails", fails when the session is initialized again: after \<open>shutdownNative\<close> and
  \<open>initializeSlamNative\<close>, a frame returns a pose.
\<close>

theorem frame_after_shutdown_and_initialize:
  "\<not> g_isInitialized (shutdownNative one_frame)
   \<and> processFrameNative test_env ''frame.png'' 6
        (run [Initialize ''ORBvoc.txt'' ''settings.yaml''] (shutdownNative one_frame))
       = (Inr pose2, two_frames)"
proof -
  have "run [Initialize ''ORBvoc.txt'' ''settings.yaml''] (shutdownNative one_frame)
      = \<lparr>g_pSLAM = 0, g_isInitialized = True, g_trackingState = 1, g_currentPose = pose1\<rparr>"
    by (simp add: one_frame_eq shutdownNative_def initializeSlamNative_def)
  then have "processFrameNative test_env ''frame.png'' 6
        (run [Initialize ''ORBvoc.txt'' ''settings.yaml''] (shutdownNative one_frame))
       = (Inr pose2, two_frames)"
    by (simp add: processFrameNative_def load_frame_test_env Mat_empty_test Let_def
        fadd_steps pose1_def pose2_def two_frames_eq)
  moreover have "\<not> g_isInitialized (shutdownNative one_frame)"
    by (simp add: shutdownNative_def Let_def)
  ultimately show ?thesis
    by simp
qed

text \<open>
  C3, amended: for every session, \<open>getTrackingStateNative\<close> right after
  \<open>initializeSlamNative\<close> returns 1 (NOT_INITIALIZED), whatever the state before; and
  after \<open>shutdownNative\<close> the session is treated as uninitialized until
  \<open>initializeSlamNative\<close> is called again: after any calls other than
  \<open>initializeSlamNative\<close> (all of which return), a \<open>processFrameNative\<close> call takes the
  "SLAM system not initialized" return and hands \<open>nullptr\<close>, not a pose, to the caller.
\<close>

theorem initialize_and_shutdown_states:
  "getTrackingStateNative (initializeSlamNative vocabPath settingsPath s) = 1
   \<and> (list_all (\<lambda>c. \<not> is_Initialize c) calls \<longrightarrow>
        returns_all calls (shutdownNative s')
        \<and> fst (processFrameNative ev imageData timestamp (run calls (shutdownNative s')))
          = Inl NotInitialized
        \<and> jni_result
            (fst (processFrameNative ev imageData timestamp (run calls (shutdownNative s'))))
          = Some Nullptr)"
proof -
  have "\<not> g_isInitialized (shutdownNative s')"
    by (simp add: shutdownNative_def Let_def)
  then have "list_all (\<lambda>c. \<not> is_Initialize c) calls
      \<Longrightarrow> \<not> g_isInitialized (run calls (shutdownNative s'))
        \<and> returns_all calls (shutdownNative s')"
    by (rule run_uninitialized)
  then show ?thesis
    by (auto simp: getTrackingStateNative_def initializeSlamNative_def processFrameNative_def)
qed

theorem initialize_and_shutdown_states_witness:
  "getTrackingStateNative (initializeSlamNative ''ORBvoc.txt'' ''settings.yaml'' initial_state) = 1
   \<and> list_all (\<lambda>c. \<not> is_Initialize c)
        [Reset, ProcessFrame test_env ''frame.png'' 5, GetTrackingState]
   \<and> fst (processFrameNative test_env ''frame.png'' 6
        (run [Reset, ProcessFrame test_env ''frame.png'' 5, GetTrackingState]
           (shutdownNative one_frame)))
       = Inl NotInitialized"
proof -
  have h: "list_all (\<lambda>c. \<not> is_Initialize c)
      [Reset, ProcessFrame test_env ''frame.png'' 5, GetTrackingState]"
    by simp
  from initialize_and_shutdown_states
    [where vocabPath = "''ORBvoc.txt''" and settingsPath = "''settings.yaml''"
      and s = initial_state
      and calls = "[Reset, ProcessFrame test_env ''frame.png'' 5, GetTrackingState]"
      and ev = test_env and imageData = "''frame.png''" and timestamp = 6
      and s' = one_frame] h
  show ?thesis
    by (simp del: run.simps returns_all.simps)
qed

subsection \<open>C4: the quaternion of a returned pose\<close>

text \<open>
  C4: in every state reachable from the initial one by a sequence of calls, the
  quaternion components of a pose array returned by \<open>processFrameNative\<close> have a norm
  within \<open>1e-4\<close> of 1. (They are \<open>(0, 0, 0, 1)\<close>: no call writes another quaternion.)
\<close>

theorem quaternion_unit_norm:
  assumes "processFrameNative ev imageData timestamp (run calls initial_state) = (Inr pose, s')"
  shows "\<bar>1 - quat_norm pose\<bar> < 1 / 10000"
proof -
  have "pose_inv (run calls initial_state)"
    using pose_inv_initial by (rule run_pose_inv)
  then obtain x y z
    where p: "g_currentPose (run calls initial_state) = [x, y, z, f_zero, f_zero, f_zero, f_one]"
    by (rule pose_invD)
  from assms
  have "pose = [fadd x f_milli, fadd y f_milli, fadd z f_milli, f_zero, f_zero, f_zero, f_one]"
    by (simp add: processFrame_seven [OF p] split: if_splits sum.splits)
  then show ?thesis
    by (simp add: quat_norm_identity)
qed

theorem quaternion_unit_norm_witness:
  "processFrameNative test_env ''frame.png'' 7
       (run [Initialize ''ORBvoc.txt'' ''settings.yaml'', ProcessFrame test_env ''frame.png'' 2,
             ProcessFrame test_env ''frame.png'' 3] initial_state)
     = (Inr pose3,
        \<lparr>g_pSLAM = 0, g_isInitialized = True, g_trackingState = 2, g_currentPose = pose3\<rparr>)
   \<and> \<bar>1 - quat_norm pose3\<bar> < 1 / 10000"
proof -
  have r: "run [Initialize ''ORBvoc.txt'' ''settings.yaml'', ProcessFrame test_env ''frame.png'' 2,
      ProcessFrame test_env ''frame.png'' 3] initial_state = two_frames"
    by (simp add: two_frames_def one_frame_def ready_def initializeSlamNative_def
        processFrameNative_def load_frame_test_env Mat_empty_test Let_def)
  have h: "processFrameNative test_env ''frame.png'' 7
       (run [Initialize ''ORBvoc.txt'' ''settings.yaml'', ProcessFrame test_env ''frame.png'' 2,
             ProcessFrame test_env ''frame.png'' 3] initial_state)
     = (Inr pose3,
        \<lparr>g_pSLAM = 0, g_isInitialized = True, g_trackingState = 2, g_currentPose = pose3\<rparr>)"
    unfolding r by (rule process_two_frames)
  from quaternion_unit_norm [OF h] h show ?thesis
    by simp
qed

subsection \<open>C5: an empty image in tracking state OK\<close>

text \<open>
  C5 as stated fails: in tracking state OK (2), a path that does not load is answered
  by the "Invalid frame data" return and the tracking state is still 2, not LOST (3).
\<close>

theorem empty_frame_stays_ok:
  "getTrackingStateNative one_frame = 2
   \<and> load_frame test_env ''missing.png'' = Inr no_image \<and> Mat_empty no_image
   \<and> processFrameNative test_env ''missing.png'' 3 one_frame = (Inl InvalidFrame, one_frame)
   \<and> getTrackingStateNative (snd (processFrameNative test_env ''missing.png'' 3 one_frame)) = 2"
proof -
  have "g_isInitialized one_frame" and "g_trackingState one_frame = 2"
    by (simp_all add: one_frame_eq)
  moreover have "load_frame test_env ''missing.png'' = Inr no_image" and "Mat_empty no_image"
    by (simp_all add: load_frame_test_env Mat_empty_test)
  ultimately show ?thesis
    by (simp add: processFrameNative_def getTrackingStateNative_def)
qed

text \<open>
  C5, amended: if an initialized session has reached tracking state OK and
  \<open>processFrameNative\<close> is then called with an image whose loading returns an empty
  frame, the call takes the "Invalid frame data" return, handing \<open>nullptr\<close> to the
  caller, and leaves the whole session state as it was: the tracking state stays OK and
  the previously stored pose stays stored. (A call whose loading throws is not
  covered.)
\<close>

theorem empty_frame_rejected:
  assumes "g_isInitialized s" and "g_trackingState s = 2"
    and "load_frame ev imageData = Inr frame" and "Mat_empty frame"
  shows "processFrameNative ev imageData timestamp s = (Inl InvalidFrame, s)
    \<and> jni_result (fst (processFrameNative ev imageData timestamp s)) = Some Nullptr
    \<and> getTrackingStateNative (snd (processFrameNative ev imageData timestamp s)) = 2
    \<and> g_currentPose (snd (processFrameNative ev imageData timestamp s)) = g_currentPose s"
  using assms by (simp add: processFrameNative_def getTrackingStateNative_def)

theorem empty_frame_rejected_witness:
  "g_isInitialized two_frames \<and> g_trackingState two_frames = 2
   \<and> load_frame test_env ''/sdcard/none.jpg'' = Inr no_image \<and> Mat_empty no_image
   \<and> processFrameNative test_env ''/sdcard/none.jpg'' 8 two_frames
       = (Inl InvalidFrame, two_frames)
   \<and> g_currentPose (snd (processFrameNative test_env ''/sdcard/none.jpg'' 8 two_frames))
       = pose2"
proof -
  have h1: "g_isInitialized two_frames" and h2: "g_trackingState two_frames = 2"
    and p: "g_currentPose two_frames = pose2"
    by (simp_all add: two_frames_eq)
  have h3: "load_frame test_env ''/sdcard/none.jpg'' = Inr no_image"
    by (simp add: load_frame_def str_find_def test_env_def loadImage_def)
  have h4: "Mat_empty no_image"
    by (simp add: Mat_empty_test)
  from empty_frame_rejected [OF h1 h2 h3 h4, of 8] h1 h2 h3 h4 p show ?thesis
    by simp
qed

subsection \<open>C6: two identical frames\<close>

text \<open>
  C6 as stated fails: from tracking state NOT_INITIALIZED (1), two calls with the same
  image \<open>frame.png\<close> leave the tracking state at OK (2).
\<close>

theorem identical_frames_reach_ok:
  "getTrackingStateNative ready = 1
   \<and> getTrackingStateNative
        (run [ProcessFrame test_env ''frame.png'' 0, ProcessFrame test_env ''frame.png'' 1] ready)
       = 2"
proof -
  have "run [ProcessFrame test_env ''frame.png'' 0, ProcessFrame test_env ''frame.png'' 1] ready
      = two_frames"
    by (simp add: step_frame del: step.simps uncaught.simps)
  then show ?thesis
    by (simp add: two_frames_eq ready_eq getTrackingStateNative_def)
qed

text \<open>
  C6, amended: starting from tracking state NOT_INITIALIZED, two \<open>processFrameNative\<close>
  calls with an identical image whose loading returns a frame both return, and they
  end in tracking state OK exactly when the session is initialized and that frame is
  not empty; otherwise the tracking state is still NOT_INITIALIZED. Parallax is not
  examined. (An image whose loading throws on an initialized session is not covered.)
\<close>

theorem identical_frames_tracking_state:
  assumes "g_trackingState s = 1"
    and "g_isInitialized s \<Longrightarrow> load_frame ev imageData = Inr frame"
  shows "returns_all [ProcessFrame ev imageData t1, ProcessFrame ev imageData t2] s
    \<and> getTrackingStateNative
        (run [ProcessFrame ev imageData t1, ProcessFrame ev imageData t2] s)
       = (if g_isInitialized s \<and> \<not> Mat_empty frame then 2 else 1)"
proof (cases "g_isInitialized s")
  case True
  with assms(2) have "load_frame ev imageData = Inr frame"
    by simp
  with True assms(1) show ?thesis
    by (simp add: processFrameNative_def getTrackingStateNative_def Let_def)
next
  case False
  with assms(1) show ?thesis
    by (simp add: processFrameNative_def getTrackingStateNative_def)
qed

theorem identical_frames_tracking_state_witness:
  "g_trackingState ready = 1
   \<and> load_frame test_env ''missing.png'' = Inr no_image
   \<and> load_frame test_env ''other.png'' = Inr two_pixels
   \<and> returns_all
        [ProcessFrame test_env ''missing.png'' 0, ProcessFrame test_env ''missing.png'' 1] ready
   \<and> getTrackingStateNative
        (run [ProcessFrame test_env ''missing.png'' 0, ProcessFrame test_env ''missing.png'' 1]
           ready) = 1
   \<and> getTrackingStateNative
        (run [ProcessFrame test_env ''other.png'' 0, ProcessFrame test_env ''other.png'' 0]
           ready) = 2"
proof -
  have h: "g_trackingState ready = 1" and i: "g_isInitialized ready"
    by (simp_all add: ready_eq)
  have m: "load_frame test_env ''missing.png'' = Inr no_image"
    and f: "load_frame test_env ''other.png'' = Inr two_pixels"
    by (simp_all add: load_frame_test_env)
  from identical_frames_tracking_state [OF h m, of 0 1]
    identical_frames_tracking_state [OF h f, of 0 0] h i m f
  show ?thesis
    by (simp add: Mat_empty_test del: run.simps returns_all.simps)
qed

subsection \<open>C7: reset\<close>

text \<open>
  C7: in every state reachable from the initial one by a sequence of calls,
  \<open>resetNative\<close> sets the tracking state to NOT_INITIALIZED (1) and stores the pose
  \<open>[0, 0, 0, 0, 0, 0, 1]\<close>: position zero, identity quaternion.
\<close>

theorem reset_clears_pose:
  "getTrackingStateNative (resetNative (run calls initial_state)) = 1
   \<and> g_currentPose (resetNative (run calls initial_state))
       = [f_zero, f_zero, f_zero, f_zero, f_zero, f_zero, f_one]
   \<and> map valof (g_currentPose (resetNative (run calls initial_state)))
       = [0, 0, 0, 0, 0, 0, 1]"
proof -
  have "g_currentPose (resetNative (run calls initial_state))
       = [f_zero, f_zero, f_zero, f_zero, f_zero, f_zero, f_one]"
    using pose_length by (rule resetNative_pose)
  then show ?thesis
    by (simp add: getTrackingStateNative_def resetNative_def valof_f_zero valof_f_one)
qed

subsection \<open>C8: initialization and the two files\<close>

text \<open>
  C8 as stated fails: the empty string is the path of no file, and
  \<open>initializeSlamNative\<close> called with it for both paths marks the session initialized.
\<close>

theorem initialize_without_files:
  "g_isInitialized (initializeSlamNative [] [] initial_state)
   \<and> getTrackingStateNative (initializeSlamNative [] [] initial_state) = 1"
  by (simp add: initializeSlamNative_def getTrackingStateNative_def)

text \<open>
  C8, amended: \<open>initializeSlamNative\<close> never fails and opens neither file: for every
  pair of paths and every state before the call it marks the session initialized and
  sets the tracking state to NOT_INITIALIZED (1), and the state after the call does not
  depend on the two paths.
\<close>

theorem initialize_always_succeeds:
  "g_isInitialized (initializeSlamNative vocabPath settingsPath s)
   \<and> getTrackingStateNative (initializeSlamNative vocabPath settingsPath s) = 1
   \<and> initializeSlamNative vocabPath settingsPath s
       = initializeSlamNative vocabPath' settingsPath' s"
  by (simp add: initializeSlamNative_def getTrackingStateNative_def)

subsection \<open>C9: shutdown twice\<close>

text \<open>
  C9: \<open>shutdownNative\<close> is idempotent. For every state, a second call in succession
  returns the state the first call left (initialized flag false, tracking state 0,
  system pointer null, pose untouched); the function has no failing path.
\<close>

theorem shutdown_idempotent:
  "shutdownNative (shutdownNative s) = shutdownNative s
   \<and> g_isInitialized (shutdownNative s) = False
   \<and> g_trackingState (shutdownNative s) = 0
   \<and> g_pSLAM (shutdownNative s) = 0
   \<and> g_currentPose (shutdownNative s) = g_currentPose s"
  by (simp add: shutdownNative_def Let_def)

subsection \<open>C10: the values of the tracking state\<close>

text \<open>
  C10: after every sequence of \<open>initializeSlamNative\<close>, \<open>processFrameNative\<close>,
  \<open>resetNative\<close>, \<open>shutdownNative\<close> and \<open>getTrackingStateNative\<close> calls from the initial
  state, the tracking state is 0, 1 or 2, and \<open>getTrackingStateNative\<close> does not return
  3 (LOST).
\<close>

theorem tracking_state_never_lost:
  "g_trackingState (run calls initial_state) \<in> {0, 1, 2}
   \<and> getTrackingStateNative (run calls initial_state) \<noteq> 3"
proof -
  have "tracking_inv initial_state"
    by (simp add: tracking_inv_def initial_state_def)
  then have "tracking_inv (run calls initial_state)"
    by (rule run_tracking)
  then show ?thesis
    by (auto simp: tracking_inv_def getTrackingStateNative_def)
qed

end
